theory Spec2Isabelle
  imports Complex_Main
begin

section \<open>Python floats\<close>

text \<open>
  The kernel computes on Python floats. A float is modelled as a finite real or one of the
  three special values; the result of an arithmetic operation on finite values is the exact
  real result (rounding inside the range is not modelled), replaced by an infinity when it
  leaves the range of a double. Comparisons with NaN are false, as in Python. The operators
  that raise in Python (\<open>/\<close> on a zero divisor, \<open>**\<close> on overflow, \<open>math.sqrt\<close> outside
  its domain) return an error value.
\<close>

datatype pyfloat = Fin real | PInf | NInf | NaN

datatype error =
    ValueError string
  | OverflowError
  | ZeroDivisionError
  | IndexError

definition DBL_MAX :: real where
  "DBL_MAX = 2 ^ 1024 - 2 ^ 971"

definition fl :: "real \<Rightarrow> pyfloat" where
  "fl r = (if r > DBL_MAX then PInf else if r < - DBL_MAX then NInf else Fin r)"

fun isfinite :: "pyfloat \<Rightarrow> bool" where
  "isfinite (Fin r) = True"
| "isfinite PInf = False"
| "isfinite NInf = False"
| "isfinite NaN = False"

fun fle :: "pyfloat \<Rightarrow> pyfloat \<Rightarrow> bool" where
  "fle NaN y = False"
| "fle x NaN = False"
| "fle (Fin x) (Fin y) = (x \<le> y)"
| "fle NInf y = True"
| "fle x PInf = True"
| "fle PInf y = False"
| "fle x NInf = False"

fun flt :: "pyfloat \<Rightarrow> pyfloat \<Rightarrow> bool" where
  "flt NaN y = False"
| "flt x NaN = False"
| "flt (Fin x) (Fin y) = (x < y)"
| "flt PInf y = False"
| "flt x NInf = False"
| "flt NInf y = True"
| "flt x PInf = True"

fun fneg :: "pyfloat \<Rightarrow> pyfloat" where
  "fneg (Fin x) = Fin (- x)"
| "fneg PInf = NInf"
| "fneg NInf = PInf"
| "fneg NaN = NaN"

fun fabs :: "pyfloat \<Rightarrow> pyfloat" where
  "fabs (Fin x) = Fin \<bar>x\<bar>"
| "fabs PInf = PInf"
| "fabs NInf = PInf"
| "fabs NaN = NaN"

fun fadd :: "pyfloat \<Rightarrow> pyfloat \<Rightarrow> pyfloat" where
  "fadd NaN y = NaN"
| "fadd x NaN = NaN"
| "fadd (Fin x) (Fin y) = fl (x + y)"
| "fadd PInf NInf = NaN"
| "fadd NInf PInf = NaN"
| "fadd PInf y = PInf"
| "fadd NInf y = NInf"
| "fadd x PInf = PInf"
| "fadd x NInf = NInf"

definition fsub :: "pyfloat \<Rightarrow> pyfloat \<Rightarrow> pyfloat" where
  "fsub x y = fadd x (fneg y)"

text \<open>The sign of a float that is not NaN, as \<open>-1\<close>, \<open>0\<close> or \<open>1\<close>.\<close>

fun fsign :: "pyfloat \<Rightarrow> real" where
  "fsign (Fin x) = sgn x"
| "fsign PInf = 1"
| "fsign NInf = - 1"
| "fsign NaN = 0"

definition inf_of_sign :: "real \<Rightarrow> pyfloat" where
  "inf_of_sign s = (if s = 0 then NaN else if 0 < s then PInf else NInf)"

fun fmul :: "pyfloat \<Rightarrow> pyfloat \<Rightarrow> pyfloat" where
  "fmul NaN y = NaN"
| "fmul x NaN = NaN"
| "fmul (Fin x) (Fin y) = fl (x * y)"
| "fmul x y = inf_of_sign (fsign x * fsign y)"

fun fdiv :: "pyfloat \<Rightarrow> pyfloat \<Rightarrow> error + pyfloat" where
  "fdiv x (Fin y) =
     (if y = 0 then Inl ZeroDivisionError
      else case x of
             Fin x' \<Rightarrow> Inr (fl (x' / y))
           | NaN \<Rightarrow> Inr NaN
           | _ \<Rightarrow> Inr (inf_of_sign (fsign x * sgn y)))"
| "fdiv NaN y = Inr NaN"
| "fdiv x NaN = Inr NaN"
| "fdiv (Fin x) y = Inr (Fin 0)"
| "fdiv x y = Inr NaN"

text \<open>\<open>math.sqrt\<close>: a math domain error on a negative argument.\<close>

fun fsqrt :: "pyfloat \<Rightarrow> error + pyfloat" where
  "fsqrt (Fin x) = (if x < 0 then Inl (ValueError ''math domain error'') else Inr (Fin (sqrt x)))"
| "fsqrt PInf = Inr PInf"
| "fsqrt NInf = Inl (ValueError ''math domain error'')"
| "fsqrt NaN = Inr NaN"

text \<open>\<open>x ** 2\<close>: Python raises OverflowError when the square of a finite float leaves the range.\<close>

fun fpow2 :: "pyfloat \<Rightarrow> error + pyfloat" where
  "fpow2 (Fin x) = (if x * x > DBL_MAX then Inl OverflowError else Inr (Fin (x * x)))"
| "fpow2 PInf = Inr PInf"
| "fpow2 NInf = Inr PInf"
| "fpow2 NaN = Inr NaN"

section \<open>core.py: constants and anchors\<close>

definition PHI :: pyfloat where
  "PHI = Fin ((1 + sqrt 5) / 2)"

definition PI :: pyfloat where
  "PI = Fin pi"

definition F_432 :: pyfloat where
  "F_432 = Fin 432"

definition F_838_776 :: pyfloat where
  "F_838_776 = Fin (838776 / 1000)"

definition ANCHOR_TOL_HZ :: pyfloat where
  "ANCHOR_TOL_HZ = Fin (1 / 1000)"

definition has_anchor :: "pyfloat list \<Rightarrow> pyfloat \<Rightarrow> pyfloat \<Rightarrow> bool" where
  "has_anchor freqs_hz target_hz tol_hz =
     list_ex (\<lambda>f. fle (fabs (fsub f target_hz)) tol_hz) freqs_hz"

definition golden_pi :: "pyfloat \<Rightarrow> error + pyfloat" where
  "golden_pi phi = (case fsqrt phi of Inl e \<Rightarrow> Inl e | Inr s \<Rightarrow> fdiv (Fin 4) s)"

definition bridge_frequency :: "pyfloat \<Rightarrow> pyfloat \<Rightarrow> pyfloat \<Rightarrow> error + pyfloat" where
  "bridge_frequency base_freq_hz pi' phi =
     (case fdiv pi' phi of Inl e \<Rightarrow> Inl e | Inr q \<Rightarrow> Inr (fmul base_freq_hz q))"

section \<open>core.py: gate validators\<close>

datatype detail = DBool bool | DFloat pyfloat | DStr string

record GateResult =
  gate_id :: string
  eligible :: bool
  reason :: string
  details :: "(string \<times> detail) list"

definition mkGate :: "string \<Rightarrow> bool \<Rightarrow> string \<Rightarrow> (string \<times> detail) list \<Rightarrow> GateResult" where
  "mkGate g e r d = \<lparr>gate_id = g, eligible = e, reason = r, details = d\<rparr>"

definition is_pos_finite :: "pyfloat \<Rightarrow> bool" where
  "is_pos_finite x = (isfinite x \<and> flt (Fin 0) x)"

text \<open>Decimal rendering of an index inside the f-strings of the reasons.\<close>

definition digit_char :: "nat \<Rightarrow> char" where
  "digit_char d = char_of (48 + d)"

function show_nat :: "nat \<Rightarrow> string" where
  "show_nat n = (if n < 10 then [digit_char n] else show_nat (n div 10) @ [digit_char (n mod 10)])"
  by pat_completeness auto
termination
  by (relation "measure id") auto

declare show_nat.simps [simp del]

text \<open>
  The two \<open>for ... enumerate\<close> loops of \<open>gate_11\<close>: the index and value of the first
  element that is not finite and positive, scanning from index \<open>i\<close>.
\<close>

fun first_bad :: "nat \<Rightarrow> pyfloat list \<Rightarrow> (nat \<times> pyfloat) option" where
  "first_bad i [] = None"
| "first_bad i (x # xs) = (if \<not> is_pos_finite x then Some (i, x) else first_bad (Suc i) xs)"

definition gate_11 ::
  "pyfloat list \<Rightarrow> pyfloat list \<Rightarrow> pyfloat \<Rightarrow> bool \<Rightarrow> bool \<Rightarrow> GateResult" where
  "gate_11 nu_i_hz a_j nu0_hz require_432 require_838 =
     (if \<not> is_pos_finite nu0_hz then
        mkGate ''GATE11'' False ''nu0_hz must be finite and > 0'' [(''nu0_hz'', DFloat nu0_hz)]
      else if length nu_i_hz = 0 then
        mkGate ''GATE11'' False ''nu_i_hz must be non-empty'' []
      else if length a_j = 0 then
        mkGate ''GATE11'' False ''a_j must be non-empty'' []
      else case first_bad 0 nu_i_hz of
        Some (i, nu) \<Rightarrow>
          mkGate ''GATE11'' False (''nu_i_hz['' @ show_nat i @ ''] must be finite and > 0'')
            [(''value'', DFloat nu)]
      | None \<Rightarrow>
          (case first_bad 0 a_j of
             Some (j, aj) \<Rightarrow>
               mkGate ''GATE11'' False (''a_j['' @ show_nat j @ ''] must be finite and > 0'')
                 [(''value'', DFloat aj)]
           | None \<Rightarrow>
               (let has_432 = has_anchor nu_i_hz F_432 ANCHOR_TOL_HZ;
                    has_838_776 = has_anchor nu_i_hz F_838_776 ANCHOR_TOL_HZ;
                    details = [(''has_432'', DBool has_432), (''has_838_776'', DBool has_838_776)]
                in if require_432 \<and> \<not> has_432 then
                     mkGate ''GATE11'' False ''432 Hz anchor required but missing'' details
                   else if require_838 \<and> \<not> has_838_776 then
                     mkGate ''GATE11'' False ''838.776 Hz anchor required but missing'' details
                   else mkGate ''GATE11'' True ''OK'' details)))"

definition gate_22 :: "pyfloat list \<Rightarrow> pyfloat list \<Rightarrow> pyfloat \<Rightarrow> error + GateResult" where
  "gate_22 nu_i_hz a_j nu0_hz =
     (let g11 = gate_11 nu_i_hz a_j nu0_hz False False
      in if \<not> eligible g11 then
           Inr (mkGate ''GATE22'' False
                  (''Prereq '' @ gate_id g11 @ '' failed: '' @ reason g11) (details g11))
         else case golden_pi PHI of
           Inl e \<Rightarrow> Inl e
         | Inr pi_phi \<Rightarrow>
             (case bridge_frequency F_432 PI PHI of
                Inl e \<Rightarrow> Inl e
              | Inr fb \<Rightarrow>
                  if \<not> is_pos_finite pi_phi \<or> \<not> is_pos_finite fb then
                    Inr (mkGate ''GATE22'' False ''Invariant computation failed''
                           [(''pi_phi'', DFloat pi_phi), (''f_bridge'', DFloat fb)])
                  else
                    Inr (mkGate ''GATE22'' True ''OK''
                           ([(''pi_phi'', DFloat pi_phi), (''f_bridge'', DFloat fb)] @ details g11))))"

definition gate_33 :: "pyfloat list \<Rightarrow> pyfloat list \<Rightarrow> pyfloat \<Rightarrow> error + GateResult" where
  "gate_33 nu_i_hz a_j nu0_hz =
     (case gate_22 nu_i_hz a_j nu0_hz of
        Inl e \<Rightarrow> Inl e
      | Inr g22 \<Rightarrow>
          if \<not> eligible g22 then
            Inr (mkGate ''GATE33'' False
                   (''Prereq '' @ gate_id g22 @ '' failed: '' @ reason g22) (details g22))
          else
            Inr (mkGate ''GATE33'' True ''OK''
                   ((''stamp'', DStr ''Gate33 active (minimal)'') # details g22)))"

definition gate_44 :: "pyfloat list \<Rightarrow> pyfloat list \<Rightarrow> pyfloat \<Rightarrow> error + GateResult" where
  "gate_44 nu_i_hz a_j nu0_hz =
     (let g11 = gate_11 nu_i_hz a_j nu0_hz True True
      in if \<not> eligible g11 then
           Inr (mkGate ''GATE44'' False
                  (''Prereq '' @ gate_id g11 @ '' failed: '' @ reason g11) (details g11))
         else case gate_22 nu_i_hz a_j nu0_hz of
           Inl e \<Rightarrow> Inl e
         | Inr g22 \<Rightarrow>
             if \<not> eligible g22 then
               Inr (mkGate ''GATE44'' False
                      (''Prereq '' @ gate_id g22 @ '' failed: '' @ reason g22) (details g22))
             else
               Inr (mkGate ''GATE44'' True ''OK''
                      ((''stamp'', DStr ''Gate44 publish-ready'') # details g22)))"

text \<open>A gate call reports eligible=true: it returns a result whose flag is set.\<close>

definition reports_eligible :: "error + GateResult \<Rightarrow> bool" where
  "reports_eligible r = (case r of Inl e \<Rightarrow> False | Inr g \<Rightarrow> eligible g)"

section \<open>core.py: the MJLOG matrix\<close>

text \<open>
  The messages of the errors are the source's up to the \<open>(got ...)\<close> part, which prints a
  float and is left out; the indices are kept.
\<close>

text \<open>The \<open>enumerate\<close> loops over \<open>nu_i\<close> and \<open>a\<close>: the first error, if any.\<close>

fun check_pos_finite :: "string \<Rightarrow> nat \<Rightarrow> pyfloat list \<Rightarrow> error option" where
  "check_pos_finite name i [] = None"
| "check_pos_finite name i (x # xs) =
     (if \<not> isfinite x then
        Some (ValueError (name @ ''['' @ show_nat i @ ''] must be finite''))
      else if fle x (Fin 0) then
        Some (ValueError (name @ ''['' @ show_nat i @ ''] must be > 0''))
      else check_pos_finite name (Suc i) xs)"

text \<open>A row of the supplied \<open>theta_ij\<close>: every entry must be finite, and is then a real.\<close>

fun theta_row :: "nat \<Rightarrow> nat \<Rightarrow> pyfloat list \<Rightarrow> error + real list" where
  "theta_row i j [] = Inr []"
| "theta_row i j (th # ths) =
     (case th of
        Fin th_f \<Rightarrow>
          (case theta_row i (Suc j) ths of
             Inl e \<Rightarrow> Inl e
           | Inr row_f \<Rightarrow> Inr (th_f # row_f))
      | _ \<Rightarrow>
          Inl (ValueError (''theta_ij['' @ show_nat i @ '']['' @ show_nat j @ ''] must be finite'')))"

fun theta_rows :: "nat \<Rightarrow> nat \<Rightarrow> pyfloat list list \<Rightarrow> error + real list list" where
  "theta_rows K i [] = Inr []"
| "theta_rows K i (row # rows) =
     (if length row \<noteq> K then
        Inl (ValueError (''theta_ij['' @ show_nat i @ ''] length must equal len(a_j)''))
      else case theta_row i 0 row of
        Inl e \<Rightarrow> Inl e
      | Inr row_f \<Rightarrow>
          (case theta_rows K (Suc i) rows of
             Inl e \<Rightarrow> Inl e
           | Inr theta \<Rightarrow> Inr (row_f # theta)))"

text \<open>The argument of the logarithm of one cell, \<open>(nu / nu0_f) * aj\<close>.\<close>

definition log_arg :: "pyfloat \<Rightarrow> pyfloat \<Rightarrow> pyfloat \<Rightarrow> error + pyfloat" where
  "log_arg nu nu0_f aj = (case fdiv nu nu0_f of Inl e \<Rightarrow> Inl e | Inr q \<Rightarrow> Inr (fmul q aj))"

text \<open>
  One cell: the argument is checked to be finite and positive, so its logarithm is a real,
  and the cell is \<open>amp * cmath.exp(1j * theta[i][j])\<close>.
\<close>

definition mjlog_cell ::
  "nat \<Rightarrow> nat \<Rightarrow> pyfloat \<Rightarrow> pyfloat \<Rightarrow> pyfloat \<Rightarrow> real \<Rightarrow> error + complex" where
  "mjlog_cell i j nu nu0_f aj th =
     (case log_arg nu nu0_f aj of
        Inl e \<Rightarrow> Inl e
      | Inr arg \<Rightarrow>
          (case arg of
             Fin x \<Rightarrow>
               if x \<le> 0 then
                 Inl (ValueError (''MJLOG log-argument must be finite and > 0 (i='' @ show_nat i
                        @ '', j='' @ show_nat j @ '')''))
               else Inr (complex_of_real (ln x) * exp (\<i> * complex_of_real th))
           | _ \<Rightarrow>
               Inl (ValueError (''MJLOG log-argument must be finite and > 0 (i='' @ show_nat i
                      @ '', j='' @ show_nat j @ '')''))))"

fun mjlog_row ::
  "real list list \<Rightarrow> pyfloat \<Rightarrow> nat \<Rightarrow> pyfloat \<Rightarrow> nat \<Rightarrow> pyfloat list \<Rightarrow> error + complex list" where
  "mjlog_row theta nu0_f i nu j [] = Inr []"
| "mjlog_row theta nu0_f i nu j (aj # as) =
     (case mjlog_cell i j nu nu0_f aj (theta ! i ! j) of
        Inl e \<Rightarrow> Inl e
      | Inr c \<Rightarrow>
          (case mjlog_row theta nu0_f i nu (Suc j) as of
             Inl e \<Rightarrow> Inl e
           | Inr row_out \<Rightarrow> Inr (c # row_out)))"

fun mjlog_rows ::
  "real list list \<Rightarrow> pyfloat \<Rightarrow> pyfloat list \<Rightarrow> nat \<Rightarrow> pyfloat list \<Rightarrow> error + complex list list" where
  "mjlog_rows theta nu0_f a i [] = Inr []"
| "mjlog_rows theta nu0_f a i (nu # nus) =
     (case mjlog_row theta nu0_f i nu 0 a of
        Inl e \<Rightarrow> Inl e
      | Inr row_out \<Rightarrow>
          (case mjlog_rows theta nu0_f a (Suc i) nus of
             Inl e \<Rightarrow> Inl e
           | Inr out \<Rightarrow> Inr (row_out # out)))"

definition mjlog ::
  "pyfloat list \<Rightarrow> pyfloat list \<Rightarrow> pyfloat \<Rightarrow> pyfloat list list option \<Rightarrow> error + complex list list" where
  "mjlog nu_i_hz a_j nu0_hz theta_ij =
     (if \<not> isfinite nu0_hz then Inl (ValueError ''nu0_hz must be finite'')
      else if fle nu0_hz (Fin 0) then Inl (ValueError ''nu0_hz must be > 0'')
      else case check_pos_finite ''nu_i_hz'' 0 nu_i_hz of
        Some e \<Rightarrow> Inl e
      | None \<Rightarrow>
          (case check_pos_finite ''a_j'' 0 a_j of
             Some e \<Rightarrow> Inl e
           | None \<Rightarrow>
               (case (case theta_ij of
                        None \<Rightarrow> Inr (map (\<lambda>_. map (\<lambda>_. 0) a_j) nu_i_hz)
                      | Some th \<Rightarrow>
                          if length th \<noteq> length nu_i_hz then
                            Inl (ValueError ''theta_ij row count must equal len(nu_i_hz)'')
                          else theta_rows (length a_j) 0 th) of
                  Inl e \<Rightarrow> Inl e
                | Inr theta \<Rightarrow> mjlog_rows theta nu0_hz a_j 0 nu_i_hz)))"

section \<open>phase.py\<close>

text \<open>The inner loop of \<open>retarded_delays\<close>: \<open>d2 += (a - b) ** 2\<close> over the zipped pairs.\<close>

fun dist2 :: "pyfloat \<Rightarrow> (pyfloat \<times> pyfloat) list \<Rightarrow> error + pyfloat" where
  "dist2 d2 [] = Inr d2"
| "dist2 d2 ((a, b) # ps) =
     (case fpow2 (fsub a b) of
        Inl e \<Rightarrow> Inl e
      | Inr sq \<Rightarrow> dist2 (fadd d2 sq) ps)"

definition delay_row :: "pyfloat list \<Rightarrow> pyfloat list \<Rightarrow> pyfloat \<Rightarrow> error + pyfloat" where
  "delay_row xi x_star v =
     (if length xi \<noteq> length x_star then
        Inl (ValueError ''X and x_star must have same dimension'')
      else case dist2 (Fin 0) (zip xi x_star) of
        Inl e \<Rightarrow> Inl e
      | Inr d2 \<Rightarrow> (case fsqrt d2 of Inl e \<Rightarrow> Inl e | Inr r \<Rightarrow> fdiv r v))"

fun delay_rows :: "pyfloat list list \<Rightarrow> pyfloat list \<Rightarrow> pyfloat \<Rightarrow> error + pyfloat list" where
  "delay_rows [] x_star v = Inr []"
| "delay_rows (xi # X) x_star v =
     (case delay_row xi x_star v of
        Inl e \<Rightarrow> Inl e
      | Inr t \<Rightarrow>
          (case delay_rows X x_star v of
             Inl e \<Rightarrow> Inl e
           | Inr tau \<Rightarrow> Inr (t # tau)))"

definition retarded_delays ::
  "pyfloat list list \<Rightarrow> pyfloat list \<Rightarrow> pyfloat \<Rightarrow> error + pyfloat list" where
  "retarded_delays X x_star v =
     (if fle v (Fin 0) then Inl (ValueError ''v must be > 0'') else delay_rows X x_star v)"

definition retarded_phase_matrix ::
  "pyfloat list \<Rightarrow> pyfloat list \<Rightarrow> pyfloat \<Rightarrow> pyfloat \<Rightarrow> pyfloat list option
     \<Rightarrow> error + pyfloat list list" where
  "retarded_phase_matrix a_j tau_i nu0_hz t psi_j =
     (let K = length a_j;
          psi = (case psi_j of None \<Rightarrow> replicate K (Fin 0) | Some p \<Rightarrow> p)
      in if length psi \<noteq> K then Inl (ValueError ''psi_j length must equal len(a_j)'')
         else
           let Omega = map (\<lambda>aj. fmul (fmul (fmul (Fin 2) PI) nu0_hz) aj) a_j
           in Inr (map (\<lambda>tau. map (\<lambda>(Om, ps). fadd (fmul Om (fsub t tau)) ps) (zip Omega psi))
                     tau_i))"

text \<open>
  The formula of the docstring for one cell, \<open>\<Omega>\<^sub>j (t - \<tau>\<^sub>i) + \<psi>\<^sub>j\<close> with
  \<open>\<Omega>\<^sub>j = 2\<pi> \<nu>\<^sub>0 a\<^sub>j\<close>, in float arithmetic.
\<close>

definition theta_formula :: "pyfloat \<Rightarrow> pyfloat \<Rightarrow> pyfloat \<Rightarrow> pyfloat \<Rightarrow> pyfloat \<Rightarrow> pyfloat" where
  "theta_formula nu0 t aj tau ps =
     fadd (fmul (fmul (fmul (fmul (Fin 2) PI) nu0) aj) (fsub t tau)) ps"

section \<open>validation.py\<close>

text \<open>
  The functions of the validation harness only do arithmetic on their inputs and never test
  them for finiteness. They are modelled on finite values with exact arithmetic: floats as
  reals and Python's complex numbers as \<^typ>\<open>complex\<close>.
\<close>



text \<open>\<open>math.atan2\<close> and \<open>cmath.phase\<close>, the principal argument.\<close>

definition atan2 :: "real \<Rightarrow> real \<Rightarrow> real" where
  "atan2 y x =
     (if 0 < x then arctan (y / x)
      else if x < 0 then (if 0 \<le> y then arctan (y / x) + pi else arctan (y / x) - pi)
      else if 0 < y then pi / 2
      else if y < 0 then - (pi / 2)
      else 0)"

definition phase :: "complex \<Rightarrow> real" where
  "phase z = atan2 (Im z) (Re z)"

text \<open>
  The generator \<open>random.Random\<close> is the standard library's. Its state is a type parameter,
  and the methods the harness calls are the fields of a record: \<open>draw2 s n\<close> is what
  \<open>rng.sample(range(n), 2)\<close> selects in state \<open>s\<close> when \<open>n \<ge> 2\<close>, \<open>random s\<close> is
  \<open>rng.random()\<close>, and \<open>seeded0\<close> is the state of \<open>random.Random(0)\<close>. Each returns the
  state it leaves behind.
\<close>

record 's Random =
  draw2 :: "'s \<Rightarrow> nat \<Rightarrow> (nat \<times> nat) \<times> 's"
  random :: "'s \<Rightarrow> real \<times> 's"
  seeded0 :: 's

text \<open>\<open>rng.sample(range(n), 2)\<close>: a ValueError when the population has fewer than 2 elements.\<close>

definition rng_sample :: "'s Random \<Rightarrow> 's \<Rightarrow> nat \<Rightarrow> error + (nat \<times> nat) \<times> 's" where
  "rng_sample R s n =
     (if n < 2 then Inl (ValueError ''Sample larger than population or is negative'')
      else Inr (draw2 R s n))"



text \<open>Indexing with an index that is not negative: IndexError out of range.\<close>

definition getitem :: "'a list \<Rightarrow> nat \<Rightarrow> error + 'a" where
  "getitem xs i = (if i < length xs then Inr (xs ! i) else Inl IndexError)"

definition cell :: "complex list list \<Rightarrow> nat \<Rightarrow> nat \<Rightarrow> error + complex" where
  "cell M i j = (case getitem M i of Inl e \<Rightarrow> Inl e | Inr row \<Rightarrow> getitem row j)"

text \<open>\<open>d = M[i1][j1]*M[i2][j2] - M[i1][j2]*M[i2][j1]\<close>, the cells read from left to right.\<close>

definition minor :: "complex list list \<Rightarrow> nat \<Rightarrow> nat \<Rightarrow> nat \<Rightarrow> nat \<Rightarrow> error + complex" where
  "minor M i1 i2 j1 j2 =
     (case cell M i1 j1 of Inl e \<Rightarrow> Inl e | Inr m11 \<Rightarrow>
       (case cell M i2 j2 of Inl e \<Rightarrow> Inl e | Inr m22 \<Rightarrow>
         (case cell M i1 j2 of Inl e \<Rightarrow> Inl e | Inr m12 \<Rightarrow>
           (case cell M i2 j1 of Inl e \<Rightarrow> Inl e | Inr m21 \<Rightarrow>
              Inr (m11 * m22 - m12 * m21)))))"

text \<open>The loop \<open>for _ in range(n_samples)\<close>, with the iterations still to run.\<close>

fun minors_loop ::
  "'s Random \<Rightarrow> complex list list \<Rightarrow> nat \<Rightarrow> nat \<Rightarrow> nat \<Rightarrow> 's \<Rightarrow> real list \<Rightarrow> real list
     \<Rightarrow> error + (real list \<times> real list) \<times> 's" where
  "minors_loop R M N K 0 s mags phases = Inr ((mags, phases), s)"
| "minors_loop R M N K (Suc n) s mags phases =
     (case rng_sample R s N of Inl e \<Rightarrow> Inl e | Inr ((i1, i2), s1) \<Rightarrow>
       (case rng_sample R s1 K of Inl e \<Rightarrow> Inl e | Inr ((j1, j2), s2) \<Rightarrow>
         (case minor M i1 i2 j1 j2 of Inl e \<Rightarrow> Inl e | Inr d \<Rightarrow>
            minors_loop R M N K n s2 (mags @ [cmod d]) (phases @ [phase d]))))"

text \<open>\<open>rng = random.Random(0)\<close> when no generator is passed.\<close>

definition rng_or_default :: "'s Random \<Rightarrow> 's option \<Rightarrow> 's" where
  "rng_or_default R rng = (case rng of None \<Rightarrow> seeded0 R | Some s \<Rightarrow> s)"

text \<open>\<open>K = len(M[0]) if N else 0\<close>.\<close>

definition n_cols :: "'a list list \<Rightarrow> nat" where
  "n_cols M = (if length M \<noteq> 0 then length (M ! 0) else 0)"

definition sample_minors ::
  "'s Random \<Rightarrow> complex list list \<Rightarrow> int \<Rightarrow> 's option
     \<Rightarrow> error + (real list \<times> real list) \<times> 's" where
  "sample_minors R M n_samples rng =
     (let s = rng_or_default R rng;
          N = length M;
          K = n_cols M
      in minors_loop R M N K (nat n_samples) s [] [])"





text \<open>
  A generator for the examples: its state counts the calls, \<open>sample\<close> picks the positions
  0 and 1, and \<open>random\<close> returns one half.
\<close>

definition example_rng :: "nat Random" where
  "example_rng =
     \<lparr>draw2 = (\<lambda>s n. ((0, 1), Suc s)), random = (\<lambda>s. (1 / 2, Suc s)), seeded0 = 0\<rparr>"

section \<open>The range of a double\<close>

lemma DBL_MAX_large: "2 ^ 1000 \<le> DBL_MAX"
  by (simp add: DBL_MAX_def)

lemma fl_small: "\<bar>r\<bar> \<le> 2 ^ 1000 \<Longrightarrow> fl r = Fin r"
  using DBL_MAX_large by (auto simp: fl_def)

section \<open>The gate chain\<close>

lemma PHI_bounds: "1 \<le> (1 + sqrt 5) / 2" "(1 + sqrt 5) / 2 \<le> 2"
proof -
  have "1 \<le> sqrt 5" by simp
  then show "1 \<le> (1 + sqrt 5) / 2" by simp
  have "sqrt 5 \<le> sqrt 9" by (rule real_sqrt_le_mono) simp
  then have "sqrt 5 \<le> 3" by simp
  then show "(1 + sqrt 5) / 2 \<le> 2" by simp
qed

lemma golden_pi_PHI: "\<exists>r. golden_pi PHI = Inr (Fin r) \<and> 0 < r"
proof -
  define p :: real where "p = (1 + sqrt 5) / 2"
  have p1: "1 \<le> p" unfolding p_def by (rule PHI_bounds)
  have s1: "1 \<le> sqrt p" using p1 by simp
  then have pos: "0 < 4 / sqrt p" by simp
  have "4 / sqrt p \<le> 4 / 1" using s1 by (intro divide_left_mono) auto
  then have "\<bar>4 / sqrt p\<bar> \<le> 2 ^ 1000" using pos by simp
  then have "fl (4 / sqrt p) = Fin (4 / sqrt p)" by (rule fl_small)
  moreover have "\<not> p < 0" "sqrt p \<noteq> 0" using p1 s1 by auto
  ultimately have "golden_pi (Fin p) = Inr (Fin (4 / sqrt p))"
    by (simp add: golden_pi_def)
  then have "golden_pi PHI = Inr (Fin (4 / sqrt p))"
    by (simp only: PHI_def p_def)
  with pos show ?thesis by blast
qed

lemma bridge_frequency_const: "\<exists>r. bridge_frequency F_432 PI PHI = Inr (Fin r) \<and> 0 < r"
proof -
  define p :: real where "p = (1 + sqrt 5) / 2"
  have p1: "1 \<le> p" unfolding p_def by (rule PHI_bounds)
  have qpos: "0 < pi / p" using p1 by simp
  have "pi / p \<le> pi / 1" using p1 by (intro divide_left_mono) auto
  then have qle: "pi / p \<le> 4" using pi_less_4 by simp
  then have "\<bar>pi / p\<bar> \<le> 2 ^ 1000" using qpos by simp
  then have q: "fl (pi / p) = Fin (pi / p)" by (rule fl_small)
  have "432 * (pi / p) \<le> 432 * 4" using qle by simp
  then have "\<bar>432 * (pi / p)\<bar> \<le> 2 ^ 1000" using qpos by simp
  then have m: "fl (432 * (pi / p)) = Fin (432 * (pi / p))" by (rule fl_small)
  have "p \<noteq> 0" using p1 by auto
  then have "bridge_frequency (Fin 432) (Fin pi) (Fin p) = Inr (Fin (432 * (pi / p)))"
    using q m by (simp add: bridge_frequency_def)
  then have "bridge_frequency F_432 PI PHI = Inr (Fin (432 * (pi / p)))"
    by (simp only: PHI_def p_def PI_def F_432_def)
  moreover have "0 < 432 * (pi / p)" using qpos by simp
  ultimately show ?thesis by blast
qed

lemma gate_22_eligible_iff:
  "reports_eligible (gate_22 nu a nu0) = eligible (gate_11 nu a nu0 False False)"
proof -
  obtain r1 where r1: "golden_pi PHI = Inr (Fin r1)" "0 < r1" using golden_pi_PHI by blast
  obtain r2 where r2: "bridge_frequency F_432 PI PHI = Inr (Fin r2)" "0 < r2"
    using bridge_frequency_const by blast
  show ?thesis
    using r1 r2
    by (simp add: gate_22_def reports_eligible_def Let_def mkGate_def is_pos_finite_def)
qed


lemma gate_11_require_mono:
  "eligible (gate_11 nu a nu0 True True) \<Longrightarrow> eligible (gate_11 nu a nu0 False False)"
  by (auto simp: gate_11_def mkGate_def Let_def split: if_splits option.splits)

lemma gate_44_eligible_iff:
  "reports_eligible (gate_44 nu a nu0) = eligible (gate_11 nu a nu0 True True)"
proof (cases "eligible (gate_11 nu a nu0 True True)")
  case False
  then show ?thesis by (simp add: gate_44_def reports_eligible_def Let_def mkGate_def)
next
  case True
  then have "eligible (gate_11 nu a nu0 False False)" by (rule gate_11_require_mono)
  then have e: "reports_eligible (gate_22 nu a nu0)" by (simp add: gate_22_eligible_iff)
  then obtain g where g: "gate_22 nu a nu0 = Inr g" "eligible g"
    by (auto simp: reports_eligible_def split: sum.splits)
  with True show ?thesis by (simp add: gate_44_def reports_eligible_def Let_def mkGate_def)
qed

text \<open>
  Claim C3. If \<open>gate_44\<close> reports eligible=true on a frequency sequence, a scale sequence
  and a reference frequency, then \<open>gate_22\<close> and \<open>gate_11\<close> with its default options
  report eligible=true on the same inputs.
\<close>

theorem gate_chain_monotone:
  "reports_eligible (gate_44 nu a nu0) \<Longrightarrow>
     reports_eligible (gate_22 nu a nu0) \<and> eligible (gate_11 nu a nu0 False False)"
  by (simp add: gate_44_eligible_iff gate_22_eligible_iff gate_11_require_mono)


lemma fl_zero: "fl 0 = Fin 0"
  by (rule fl_small) simp

theorem gate_chain_monotone_witness:
  "reports_eligible (gate_44 [Fin 432, Fin (838776 / 1000)] [Fin 1] (Fin 432)) \<and>
   reports_eligible (gate_22 [Fin 432, Fin (838776 / 1000)] [Fin 1] (Fin 432)) \<and>
   eligible (gate_11 [Fin 432, Fin (838776 / 1000)] [Fin 1] (Fin 432) False False)"
proof -
  have h: "reports_eligible (gate_44 [Fin 432, Fin (838776 / 1000)] [Fin 1] (Fin 432))"
    by (simp add: gate_44_eligible_iff gate_11_def is_pos_finite_def has_anchor_def fsub_def
        fl_zero F_432_def F_838_776_def ANCHOR_TOL_HZ_def mkGate_def)
  show ?thesis using h gate_chain_monotone [OF h] by simp
qed






section \<open>Angle wrapping\<close>




section \<open>Mean resultant length\<close>




section \<open>Phase scramble\<close>






section \<open>Sampling minors\<close>








text \<open>
  Claim C4, as stated, fails for the sample count 0: no index is drawn, and the call on the
  empty matrix returns two empty sequences.
\<close>

theorem sample_minors_no_draw:
  "sample_minors example_rng [] 0 None = Inr (([], []), 0)"
  by (simp add: sample_minors_def rng_or_default_def example_rng_def)

text \<open>
  Claim C4, amended. On a matrix with fewer than 2 rows or fewer than 2 columns the call
  fails with a ValueError for every sample count \<open>S \<ge> 1\<close>, and returns two empty sequences,
  leaving the generator untouched, for \<open>S \<le> 0\<close>.
\<close>

theorem sample_minors_small_matrix:
  assumes "length M < 2 \<or> n_cols M < 2"
  shows "sample_minors R M S rng =
           (if 1 \<le> S then Inl (ValueError ''Sample larger than population or is negative'')
            else Inr (([], []), rng_or_default R rng))"
proof (cases "1 \<le> S")
  case False
  then have "nat S = 0" by simp
  then show ?thesis using False by (simp add: sample_minors_def Let_def)
next
  case True
  then obtain n where n: "nat S = Suc n" by (cases "nat S") auto
  show ?thesis
  proof (cases "length M < 2")
    case True
    then show ?thesis
      using \<open>1 \<le> S\<close> n by (simp add: sample_minors_def Let_def rng_sample_def)
  next
    case False
    with assms have "n_cols M < 2" by simp
    then show ?thesis
      using \<open>1 \<le> S\<close> n False
      by (simp add: sample_minors_def Let_def rng_sample_def split: prod.splits)
  qed
qed

theorem sample_minors_small_matrix_witness:
  "sample_minors example_rng [[1, 2]] 5 None =
     Inl (ValueError ''Sample larger than population or is negative'')"
  using sample_minors_small_matrix [of "[[1, 2]]" example_rng 5 None] by simp

section \<open>The MJLOG matrix\<close>

lemma check_pos_finite_error:
  "check_pos_finite name i xs = Some e \<Longrightarrow> \<exists>msg. e = ValueError msg"
  by (induction xs arbitrary: i) (auto split: if_splits)

lemma check_pos_finite_passed:
  "check_pos_finite name i xs = None \<Longrightarrow> x \<in> set xs \<Longrightarrow> \<exists>r. x = Fin r \<and> 0 < r"
proof (induction xs arbitrary: i)
  case Nil
  then show ?case by simp
next
  case (Cons y ys)
  from Cons.prems(1) have y: "isfinite y" "\<not> fle y (Fin 0)"
    and rest: "check_pos_finite name (Suc i) ys = None"
    by (auto split: if_splits)
  show ?case
  proof (cases "x = y")
    case True
    with y show ?thesis by (cases y) auto
  next
    case False
    with Cons.prems(2) have "x \<in> set ys" by simp
    with rest show ?thesis by (rule Cons.IH)
  qed
qed

lemma theta_row_error: "theta_row i j ths = Inl e \<Longrightarrow> \<exists>msg. e = ValueError msg"
  by (induction ths arbitrary: j e) (auto split: pyfloat.splits sum.splits)

lemma theta_rows_error: "theta_rows K i rows = Inl e \<Longrightarrow> \<exists>msg. e = ValueError msg"
  by (induction rows arbitrary: i e) (auto split: if_splits sum.splits dest: theta_row_error)

lemma mjlog_cell_error:
  assumes "0 < n0" and "mjlog_cell i j nu (Fin n0) aj th = Inl e"
  shows "\<exists>msg. e = ValueError msg"
  using assms by (auto simp: mjlog_cell_def log_arg_def split: sum.splits pyfloat.splits if_splits)

lemma mjlog_cell_value:
  assumes "mjlog_cell i j nu nu0 aj th = Inr c"
  shows "\<exists>x. log_arg nu nu0 aj = Inr (Fin x) \<and> 0 < x"
  using assms by (auto simp: mjlog_cell_def split: sum.splits pyfloat.splits if_splits)

lemma mjlog_row_error:
  assumes "0 < n0"
  shows "mjlog_row theta (Fin n0) i nu j as = Inl e \<Longrightarrow> \<exists>msg. e = ValueError msg"
  by (induction as arbitrary: j e)
     (auto split: sum.splits dest: mjlog_cell_error [OF assms])

lemma mjlog_row_value:
  "mjlog_row theta nu0 i nu j as = Inr row \<Longrightarrow> aj \<in> set as \<Longrightarrow>
     \<exists>x. log_arg nu nu0 aj = Inr (Fin x) \<and> 0 < x"
  by (induction as arbitrary: j row)
     (auto split: sum.splits dest: mjlog_cell_value)

lemma mjlog_rows_error:
  assumes "0 < n0"
  shows "mjlog_rows theta (Fin n0) a i nus = Inl e \<Longrightarrow> \<exists>msg. e = ValueError msg"
  by (induction nus arbitrary: i e)
     (auto split: sum.splits dest: mjlog_row_error [OF assms])

lemma mjlog_rows_value:
  "mjlog_rows theta nu0 a i nus = Inr out \<Longrightarrow> nu \<in> set nus \<Longrightarrow> aj \<in> set a \<Longrightarrow>
     \<exists>x. log_arg nu nu0 aj = Inr (Fin x) \<and> 0 < x"
  by (induction nus arbitrary: i out)
     (auto split: sum.splits dest: mjlog_row_value)

lemma mjlog_error: "mjlog nu a nu0 theta = Inl e \<Longrightarrow> \<exists>msg. e = ValueError msg"
proof -
  assume r: "mjlog nu a nu0 theta = Inl e"
  show ?thesis
  proof (cases nu0)
    case (Fin n0)
    show ?thesis
    proof (cases "0 < n0")
      case True
      with r Fin show ?thesis
        by (auto simp: mjlog_def split: option.splits sum.splits if_splits
            dest: check_pos_finite_error theta_rows_error mjlog_rows_error)
    next
      case False
      with r Fin show ?thesis by (auto simp: mjlog_def)
    qed
  qed (use r in \<open>auto simp: mjlog_def\<close>)
qed

lemma mjlog_returns:
  assumes "mjlog nu a nu0 theta = Inr M"
  shows "\<not> fle nu0 (Fin 0)"
    and "x \<in> set a \<Longrightarrow> \<exists>r. x = Fin r \<and> 0 < r"
    and "n \<in> set nu \<Longrightarrow> aj \<in> set a \<Longrightarrow> \<exists>y. log_arg n nu0 aj = Inr (Fin y) \<and> 0 < y"
proof -
  from assms show "\<not> fle nu0 (Fin 0)"
    by (auto simp: mjlog_def split: if_splits)
  from assms have "check_pos_finite ''a_j'' 0 a = None"
    by (auto simp: mjlog_def split: if_splits option.splits)
  then show "x \<in> set a \<Longrightarrow> \<exists>r. x = Fin r \<and> 0 < r"
    by (rule check_pos_finite_passed)
  from assms obtain th where "mjlog_rows th nu0 a 0 nu = Inr M"
    by (auto simp: mjlog_def split: if_splits option.splits sum.splits)
  then show "n \<in> set nu \<Longrightarrow> aj \<in> set a \<Longrightarrow> \<exists>y. log_arg n nu0 aj = Inr (Fin y) \<and> 0 < y"
    by (rule mjlog_rows_value)
qed

text \<open>
  Claim C5. \<open>mjlog\<close> raises a ValueError, and returns no matrix, whenever \<open>nu0\<close> is at
  most 0, whenever some scale value \<open>a[j]\<close> is at most 0, and whenever the argument of the
  logarithm \<open>(nu[i] / nu0) * a[j]\<close> of some cell is at most 0.
\<close>

theorem mjlog_domain_errors:
  assumes "fle nu0 (Fin 0) \<or> (\<exists>j<length a. fle (a ! j) (Fin 0)) \<or>
           (\<exists>i<length nu. \<exists>j<length a. \<exists>x. log_arg (nu ! i) nu0 (a ! j) = Inr x \<and> fle x (Fin 0))"
  shows "\<exists>msg. mjlog nu a nu0 theta = Inl (ValueError msg)"
proof (cases "mjlog nu a nu0 theta")
  case (Inl e)
  then show ?thesis using mjlog_error [of nu a nu0 theta e] by auto
next
  case (Inr M)
  note ret = mjlog_returns [OF Inr]
  from assms consider "fle nu0 (Fin 0)"
    | j where "j < length a" "fle (a ! j) (Fin 0)"
    | i j x where "i < length nu" "j < length a"
        "log_arg (nu ! i) nu0 (a ! j) = Inr x" "fle x (Fin 0)"
    by blast
  then have False
  proof cases
    case 1
    with ret(1) show False by simp
  next
    case 2
    then have "a ! j \<in> set a" by simp
    then obtain r where "a ! j = Fin r" "0 < r" using ret(2) by blast
    with 2 show False by simp
  next
    case 3
    then have "nu ! i \<in> set nu" "a ! j \<in> set a" by simp_all
    then obtain y where "log_arg (nu ! i) nu0 (a ! j) = Inr (Fin y)" "0 < y"
      using ret(3) by blast
    with 3 have "x = Fin y" "0 < y" by simp_all
    with 3(4) show False by simp
  qed
  then show ?thesis ..
qed

theorem mjlog_domain_errors_witness:
  "\<exists>msg. mjlog [Fin 432, Fin 434] [Fin 1, Fin (- 2)] (Fin 432) None = Inl (ValueError msg)"
proof -
  have "\<exists>j<length [Fin 1, Fin (- 2)]. fle ([Fin 1, Fin (- 2)] ! j) (Fin 0)"
    by (rule exI [of _ 1]) simp
  then show ?thesis using mjlog_domain_errors by blast
qed

section \<open>The retarded phase matrix\<close>

text \<open>
  Claim C8. For an offset sequence \<open>psi\<close> as long as the scale sequence \<open>a\<close>,
  \<open>retarded_phase_matrix\<close> returns a matrix with one row per delay and one column per scale
  whose cell \<open>(i, j)\<close> is \<open>2\<pi> \<nu>\<^sub>0 a[j] (t - \<tau>[i]) + \<psi>[j]\<close>; an omitted \<open>psi\<close> stands for
  zeros; a \<open>psi\<close> of another length is refused with a ValueError.
\<close>

theorem retarded_phase_matrix_cells:
  "(length psi = length a \<longrightarrow>
      (\<exists>\<theta>. retarded_phase_matrix a tau nu0 t (Some psi) = Inr \<theta> \<and>
         length \<theta> = length tau \<and>
         (\<forall>i<length tau. length (\<theta> ! i) = length a \<and>
            (\<forall>j<length a. \<theta> ! i ! j = theta_formula nu0 t (a ! j) (tau ! i) (psi ! j))))) \<and>
   retarded_phase_matrix a tau nu0 t None =
     retarded_phase_matrix a tau nu0 t (Some (replicate (length a) (Fin 0))) \<and>
   (length psi \<noteq> length a \<longrightarrow>
      retarded_phase_matrix a tau nu0 t (Some psi) =
        Inl (ValueError ''psi_j length must equal len(a_j)''))"
  by (simp add: retarded_phase_matrix_def Let_def theta_formula_def)

theorem retarded_phase_matrix_cells_witness:
  "(\<exists>\<theta>. retarded_phase_matrix [Fin 1, Fin 2] [Fin 0, Fin 3] (Fin 432) (Fin 0) (Some [Fin 0, Fin 1])
        = Inr \<theta> \<and>
      \<theta> ! 1 ! 1 = theta_formula (Fin 432) (Fin 0) (Fin 2) (Fin 3) (Fin 1)) \<and>
   retarded_phase_matrix [Fin 1, Fin 2] [Fin 0, Fin 3] (Fin 432) (Fin 0) (Some [Fin 0])
     = Inl (ValueError ''psi_j length must equal len(a_j)'')"
  using retarded_phase_matrix_cells
    [of "[Fin 0, Fin 1]" "[Fin 1, Fin 2]" "[Fin 0, Fin 3]" "Fin 432" "Fin 0"]
    retarded_phase_matrix_cells
    [of "[Fin 0]" "[Fin 1, Fin 2]" "[Fin 0, Fin 3]" "Fin 432" "Fin 0"]
  by (auto simp: nth_Cons')

text \<open>On finite values that stay inside the range, the formula is the real one.\<close>

lemma theta_formula_exact:
  assumes "\<bar>2 * pi * nu0\<bar> \<le> DBL_MAX" and "\<bar>2 * pi * nu0 * aj\<bar> \<le> DBL_MAX"
    and "\<bar>t - tau\<bar> \<le> DBL_MAX" and "\<bar>2 * pi * nu0 * aj * (t - tau)\<bar> \<le> DBL_MAX"
    and "\<bar>2 * pi * nu0 * aj * (t - tau) + ps\<bar> \<le> DBL_MAX"
  shows "theta_formula (Fin nu0) (Fin t) (Fin aj) (Fin tau) (Fin ps) =
           Fin (2 * pi * nu0 * aj * (t - tau) + ps)"
proof -
  have fl: "fl r = Fin r" if "\<bar>r\<bar> \<le> DBL_MAX" for r
    using that by (auto simp: fl_def)
  have "\<bar>2 * pi\<bar> \<le> 2 ^ 1000"
  proof -
    have "2 * pi \<le> 8" using pi_less_4 by simp
    also have "(8::real) \<le> 2 ^ 1000" by simp
    finally show ?thesis using pi_gt_zero by simp
  qed
  then have "\<bar>2 * pi\<bar> \<le> DBL_MAX" using DBL_MAX_large by linarith
  then have 1: "fmul (Fin 2) PI = Fin (2 * pi)" by (simp add: PI_def fl)
  have 2: "fmul (Fin (2 * pi)) (Fin nu0) = Fin (2 * pi * nu0)" using assms(1) by (simp add: fl)
  have 3: "fmul (Fin (2 * pi * nu0)) (Fin aj) = Fin (2 * pi * nu0 * aj)"
    using assms(2) by (simp add: fl)
  have 4: "fsub (Fin t) (Fin tau) = Fin (t - tau)" using assms(3) by (simp add: fsub_def fl)
  have 5: "fmul (Fin (2 * pi * nu0 * aj)) (Fin (t - tau)) = Fin (2 * pi * nu0 * aj * (t - tau))"
    using assms(4) by (simp add: fl)
  have 6: "fadd (Fin (2 * pi * nu0 * aj * (t - tau))) (Fin ps) =
      Fin (2 * pi * nu0 * aj * (t - tau) + ps)"
    using assms(5) by (simp add: fl)
  show ?thesis unfolding theta_formula_def 1 2 3 4 5 6 ..
qed

section \<open>Retarded delays\<close>

lemma DBL_MAX_pos: "0 < DBL_MAX"
proof -
  have "(0::real) < 2 ^ 1000" by simp
  then show ?thesis using DBL_MAX_large by linarith
qed

lemma fpow2_error: "fpow2 x = Inl e \<Longrightarrow> e = OverflowError"
  by (cases x) (auto split: if_splits)

text \<open>The square root is defined on every value the accumulator \<open>d2\<close> takes.\<close>

lemma fsqrt_fpow2: "fpow2 x = Inr y \<Longrightarrow> \<exists>r. fsqrt y = Inr r"
  by (cases x) (auto split: if_splits)

lemma fsqrt_fadd:
  assumes "fsqrt x = Inr r" and "fsqrt y = Inr r'"
  shows "\<exists>q. fsqrt (fadd x y) = Inr q"
proof (cases x)
  case (Fin a)
  note x = this
  show ?thesis
  proof (cases y)
    case (Fin b)
    from assms x Fin have "0 \<le> a" "0 \<le> b" by (auto split: if_splits)
    then have "0 \<le> a + b" by simp
    then show ?thesis using x Fin DBL_MAX_pos by (auto simp: fl_def)
  qed (use assms x in auto)
qed (use assms in \<open>cases y; auto\<close>)+

lemma dist2_error_iff:
  "(\<exists>e. dist2 d ps = Inl e) \<longleftrightarrow> (\<exists>(a, b)\<in>set ps. fpow2 (fsub a b) = Inl OverflowError)"
proof (induction ps arbitrary: d)
  case Nil
  show ?case by simp
next
  case (Cons p ps)
  obtain a b where p: "p = (a, b)" by (cases p)
  show ?case
  proof (cases "fpow2 (fsub a b)")
    case (Inl e)
    then have "e = OverflowError" by (rule fpow2_error)
    with Inl p show ?thesis by simp
  next
    case (Inr sq)
    then show ?thesis using p Cons.IH [of "fadd d sq"] by simp
  qed
qed

lemma dist2_sqrt_defined:
  "fsqrt d = Inr r \<Longrightarrow> dist2 d ps = Inr d' \<Longrightarrow> \<exists>q. fsqrt d' = Inr q"
proof (induction ps arbitrary: d r)
  case Nil
  then show ?case by simp
next
  case (Cons p ps)
  obtain a b where p: "p = (a, b)" by (cases p)
  from Cons.prems(2) p obtain sq where sq: "fpow2 (fsub a b) = Inr sq"
    and rest: "dist2 (fadd d sq) ps = Inr d'"
    by (auto split: sum.splits)
  from sq obtain r' where "fsqrt sq = Inr r'" using fsqrt_fpow2 by blast
  with Cons.prems(1) obtain q where "fsqrt (fadd d sq) = Inr q" using fsqrt_fadd by blast
  then show ?case using rest by (rule Cons.IH)
qed

lemma fdiv_defined: "\<not> fle v (Fin 0) \<Longrightarrow> \<exists>q. fdiv r v = Inr q"
  by (cases v; cases r) auto

lemma fdiv_nonfinite: "v = NaN \<or> v = PInf \<Longrightarrow> fdiv r v = Inr q \<Longrightarrow> q = NaN \<or> q = Fin 0"
  by (cases r) auto

lemma delay_row_error_iff:
  assumes "\<not> fle v (Fin 0)"
  shows "(\<exists>e. delay_row xi x_star v = Inl e) \<longleftrightarrow>
           (length xi \<noteq> length x_star \<or>
            (\<exists>(a, b)\<in>set (zip xi x_star). fpow2 (fsub a b) = Inl OverflowError))"
proof (cases "length xi \<noteq> length x_star")
  case True
  then show ?thesis by (simp add: delay_row_def)
next
  case False
  show ?thesis
  proof (cases "dist2 (Fin 0) (zip xi x_star)")
    case (Inl e)
    then have "\<exists>(a, b)\<in>set (zip xi x_star). fpow2 (fsub a b) = Inl OverflowError"
      using dist2_error_iff [of "Fin 0" "zip xi x_star"] by blast
    with Inl False show ?thesis by (simp add: delay_row_def)
  next
    case (Inr d2)
    then have no: "\<not> (\<exists>(a, b)\<in>set (zip xi x_star). fpow2 (fsub a b) = Inl OverflowError)"
      using dist2_error_iff [of "Fin 0" "zip xi x_star"] by simp
    have "fsqrt (Fin 0) = Inr (Fin 0)" by simp
    then obtain q where q: "fsqrt d2 = Inr q" using Inr dist2_sqrt_defined by blast
    obtain t where "fdiv q v = Inr t" using assms fdiv_defined by blast
    with Inr q False no show ?thesis by (simp add: delay_row_def)
  qed
qed

lemma delay_rows_error_iff:
  assumes "\<not> fle v (Fin 0)"
  shows "(\<exists>e. delay_rows X x_star v = Inl e) \<longleftrightarrow>
           (\<exists>xi\<in>set X. length xi \<noteq> length x_star \<or>
              (\<exists>(a, b)\<in>set (zip xi x_star). fpow2 (fsub a b) = Inl OverflowError))"
proof (induction X)
  case Nil
  show ?case by simp
next
  case (Cons xi X)
  show ?case
  proof (cases "delay_row xi x_star v")
    case (Inl e)
    then have "length xi \<noteq> length x_star \<or>
        (\<exists>(a, b)\<in>set (zip xi x_star). fpow2 (fsub a b) = Inl OverflowError)"
      using delay_row_error_iff [OF assms, of xi x_star] by blast
    with Inl show ?thesis by simp
  next
    case (Inr t)
    then have "\<not> (length xi \<noteq> length x_star \<or>
        (\<exists>(a, b)\<in>set (zip xi x_star). fpow2 (fsub a b) = Inl OverflowError))"
      using delay_row_error_iff [OF assms, of xi x_star] by simp
    then have here: "(\<exists>xi'\<in>set (xi # X). length xi' \<noteq> length x_star \<or>
          (\<exists>(a, b)\<in>set (zip xi' x_star). fpow2 (fsub a b) = Inl OverflowError)) \<longleftrightarrow>
        (\<exists>xi'\<in>set X. length xi' \<noteq> length x_star \<or>
          (\<exists>(a, b)\<in>set (zip xi' x_star). fpow2 (fsub a b) = Inl OverflowError))"
      by simp
    have "(\<exists>e. delay_rows (xi # X) x_star v = Inl e) \<longleftrightarrow> (\<exists>e. delay_rows X x_star v = Inl e)"
      using Inr by (simp split: sum.splits)
    then show ?thesis using Cons.IH here by simp
  qed
qed

lemma delay_rows_nonfinite:
  assumes "v = NaN \<or> v = PInf"
  shows "delay_rows X x_star v = Inr tau \<Longrightarrow> t \<in> set tau \<Longrightarrow> t = NaN \<or> t = Fin 0"
proof (induction X arbitrary: tau)
  case Nil
  then show ?case by simp
next
  case (Cons xi X)
  from Cons.prems(1) obtain t0 tau' where t0: "delay_row xi x_star v = Inr t0"
    and rest: "delay_rows X x_star v = Inr tau'" and tau: "tau = t0 # tau'"
    by (auto split: sum.splits)
  from t0 obtain q where "fdiv q v = Inr t0"
    by (auto simp: delay_row_def split: if_splits sum.splits)
  with assms have "t0 = NaN \<or> t0 = Fin 0" by (rule fdiv_nonfinite)
  then show ?case using Cons.IH [OF rest] Cons.prems(2) tau by auto
qed

text \<open>
  Claim C10, as stated, fails: with a positive speed and a row of the dimension of
  \<open>x_star\<close>, the square of the coordinate difference \<open>2\<^sup>6\<^sup>0\<^sup>0 - 0\<close> leaves the range of a
  double and \<open>**\<close> raises OverflowError.
\<close>

theorem retarded_delays_overflow:
  "retarded_delays [[Fin (2 ^ 600)]] [Fin 0] (Fin 1) = Inl OverflowError \<and>
   \<not> fle (Fin 1) (Fin 0) \<and> length [Fin (2 ^ 600)] = length [Fin 0]"
proof -
  have "(2::real) ^ 600 \<le> 2 ^ 1000" by simp
  then have "fl (2 ^ 600) = Fin (2 ^ 600)" by (intro fl_small) simp
  moreover have "DBL_MAX < 2 ^ 600 * 2 ^ 600" by (simp add: DBL_MAX_def)
  ultimately show ?thesis
    by (simp add: retarded_delays_def delay_row_def fsub_def)
qed

text \<open>
  Claim C10, amended. \<open>retarded_delays\<close> raises a ValueError when \<open>v \<le> 0\<close>; it raises an
  error if and only if \<open>v \<le> 0\<close>, or some row of \<open>X\<close> has another length than \<open>x_star\<close>, or
  the square of some coordinate difference of a row overflows. A speed that is NaN or plus
  infinity passes the check on \<open>v\<close>, and every delay then returned is NaN or 0.
\<close>

theorem retarded_delays_errors:
  "(fle v (Fin 0) \<longrightarrow> retarded_delays X x_star v = Inl (ValueError ''v must be > 0'')) \<and>
   ((\<exists>e. retarded_delays X x_star v = Inl e) \<longleftrightarrow>
      (fle v (Fin 0) \<or>
       (\<exists>xi\<in>set X. length xi \<noteq> length x_star \<or>
          (\<exists>(a, b)\<in>set (zip xi x_star). fpow2 (fsub a b) = Inl OverflowError)))) \<and>
   (v = NaN \<or> v = PInf \<longrightarrow>
      \<not> fle v (Fin 0) \<and>
      (\<forall>tau. retarded_delays X x_star v = Inr tau \<longrightarrow> (\<forall>t\<in>set tau. t = NaN \<or> t = Fin 0)))"
proof (intro conjI impI)
  assume "fle v (Fin 0)"
  then show "retarded_delays X x_star v = Inl (ValueError ''v must be > 0'')"
    by (simp add: retarded_delays_def)
next
  show "(\<exists>e. retarded_delays X x_star v = Inl e) \<longleftrightarrow>
      (fle v (Fin 0) \<or>
       (\<exists>xi\<in>set X. length xi \<noteq> length x_star \<or>
          (\<exists>(a, b)\<in>set (zip xi x_star). fpow2 (fsub a b) = Inl OverflowError)))"
  proof (cases "fle v (Fin 0)")
    case True
    then show ?thesis by (simp add: retarded_delays_def)
  next
    case False
    then show ?thesis
      using delay_rows_error_iff [OF False, of X x_star] by (simp add: retarded_delays_def)
  qed
next
  assume "v = NaN \<or> v = PInf"
  then show "\<not> fle v (Fin 0)" by auto
next
  assume v: "v = NaN \<or> v = PInf"
  then have "\<not> fle v (Fin 0)" by auto
  then show "\<forall>tau. retarded_delays X x_star v = Inr tau \<longrightarrow> (\<forall>t\<in>set tau. t = NaN \<or> t = Fin 0)"
    using delay_rows_nonfinite [OF v] by (auto simp: retarded_delays_def)
qed

theorem retarded_delays_errors_witness:
  "retarded_delays [[Fin 3, Fin 4]] [Fin 0] (Fin 1) =
     Inl (ValueError ''X and x_star must have same dimension'') \<and>
   retarded_delays [[Fin 3, Fin 4]] [Fin 0, Fin 0] PInf = Inr [Fin 0] \<and>
   \<not> (\<exists>e. retarded_delays [[Fin 3, Fin 4]] [Fin 0, Fin 0] NaN = Inl e)"
proof -
  have fl: "fl 3 = Fin 3" "fl 4 = Fin 4" "fl 9 = Fin 9" "fl 25 = Fin 25"
    by (rule fl_small, simp)+
  have small: "\<not> DBL_MAX < 9" "\<not> DBL_MAX < 16"
    using DBL_MAX_large by (simp_all add: not_less order_trans [rotated])
  have a: "retarded_delays [[Fin 3, Fin 4]] [Fin 0] (Fin 1) =
      Inl (ValueError ''X and x_star must have same dimension'')"
    by (simp add: retarded_delays_def delay_row_def)
  have b: "retarded_delays [[Fin 3, Fin 4]] [Fin 0, Fin 0] PInf = Inr [Fin 0]"
    using fl small by (simp add: retarded_delays_def delay_row_def fsub_def)
  have "\<not> (fle NaN (Fin 0) \<or>
       (\<exists>xi\<in>set [[Fin 3, Fin 4]]. length xi \<noteq> length [Fin 0, Fin (0::real)] \<or>
          (\<exists>(a, b)\<in>set (zip xi [Fin 0, Fin 0]). fpow2 (fsub a b) = Inl OverflowError)))"
    using fl small by (simp add: fsub_def)
  then have c: "\<not> (\<exists>e. retarded_delays [[Fin 3, Fin 4]] [Fin 0, Fin 0] NaN = Inl e)"
    using retarded_delays_errors [of NaN "[[Fin 3, Fin 4]]" "[Fin 0, Fin 0]"] by blast
  from a b c show ?thesis by blast
qed

end
